theory Spec2Isabelle
  imports Complex_Main
begin

section \<open>JavaScript values, numbers and exceptions\<close>

text \<open>
  The call arguments of a decorated method are JavaScript values. The model covers
  \<open>undefined\<close>, \<open>null\<close>, booleans, finite numbers, strings and arrays of these. Objects,
  functions, dates and the number \<open>NaN\<close> are not in this universe: they are the values
  on which \<open>===\<close> depends on object identity or is not reflexive.
\<close>

datatype jsval =
    VUndefined
  | VNull
  | VBool bool
  | VNum rat
  | VStr string
  | VArr "jsval list"

text \<open>
  The third component of an overload entry is a JavaScript \<open>number\<close>, or absent
  (\<open>None\<close>, read as \<open>undefined\<close> by the destructuring at line 45).
\<close>

datatype number = NaN | Infinity | NegInfinity | Finite rat

text \<open>
  What a call can throw: the TypeError of the runtime, or any value thrown by a
  caller-supplied schema, handler or method.
\<close>

datatype error = TypeError | Thrown jsval

section \<open>The interface of Zod that the dispatcher uses\<close>

text \<open>
  Zod 3 is the library the source requires at line 4. The dispatcher reads a schema's
  \<open>_def.typeName\<close>, calls its \<open>safeParse\<close> and its \<open>and\<close>, and builds schemas with
  \<open>z.custom\<close>. A schema is modelled by these two observations. \<open>safeParse\<close> returns
  \<open>{success: true, data}\<close> or \<open>{success: false, error}\<close>; an exception thrown by a
  refinement function is not caught by Zod and leaves \<open>safeParse\<close> as an exception.
\<close>

datatype SafeParseReturnType = Success jsval | Failure

record ZodType =
  typeName :: string
  safeParse :: "jsval \<Rightarrow> error + SafeParseReturnType"

text \<open>
  Zod's \<open>mergeValues\<close>, used by an intersection to combine the outputs of its two sides:
  identical values merge to themselves, two arrays of the same length merge item by
  item, everything else in this universe does not merge.
\<close>

fun mergeValues :: "jsval \<Rightarrow> jsval \<Rightarrow> jsval option"
  and mergeItems :: "jsval list \<Rightarrow> jsval list \<Rightarrow> jsval list option" where
  "mergeValues (VArr xs) (VArr ys) =
     (if length xs \<noteq> length ys then None else map_option VArr (mergeItems xs ys))"
| "mergeValues a b = (if a = b then Some a else None)"
| "mergeItems [] [] = Some []"
| "mergeItems (x # xs) (y # ys) =
     (case mergeValues x y of
        None \<Rightarrow> None
      | Some m \<Rightarrow> map_option ((#) m) (mergeItems xs ys))"
| "mergeItems _ _ = None"

text \<open>
  \<open>left.and(right)\<close> is \<open>ZodIntersection.create(left, right)\<close>: both sides parse the same
  input, left first; the parse succeeds when both succeed and their outputs merge.
\<close>

definition zod_and :: "ZodType \<Rightarrow> ZodType \<Rightarrow> ZodType" where
  "zod_and left right =
     \<lparr> typeName = ''ZodIntersection'',
       safeParse = (\<lambda>x.
         case safeParse left x of
           Inl e \<Rightarrow> Inl e
         | Inr a \<Rightarrow>
             (case safeParse right x of
                Inl e \<Rightarrow> Inl e
              | Inr b \<Rightarrow>
                  Inr (case a of
                         Failure \<Rightarrow> Failure
                       | Success u \<Rightarrow>
                           (case b of
                              Failure \<Rightarrow> Failure
                            | Success v \<Rightarrow>
                                (case mergeValues u v of
                                   None \<Rightarrow> Failure
                                 | Some m \<Rightarrow> Success m))))) \<rparr>"

text \<open>
  \<open>z.custom(check)\<close> is \<open>z.any()\<close> refined by \<open>check\<close>: the input is returned unchanged
  when \<open>check\<close> is truthy, the parse fails when it is falsy, and an exception of \<open>check\<close>
  propagates.
\<close>

definition z_custom :: "(jsval \<Rightarrow> error + bool) \<Rightarrow> ZodType" where
  "z_custom check =
     \<lparr> typeName = ''ZodEffects'',
       safeParse = (\<lambda>x.
         case check x of
           Inl e \<Rightarrow> Inl e
         | Inr ok \<Rightarrow> Inr (if ok then Success x else Failure)) \<rparr>"

definition z_any :: ZodType where
  "z_any = \<lparr> typeName = ''ZodAny'', safeParse = (\<lambda>x. Inr (Success x)) \<rparr>"

definition z_string :: ZodType where
  "z_string =
     \<lparr> typeName = ''ZodString'',
       safeParse = (\<lambda>x. Inr (case x of VStr s \<Rightarrow> Success (VStr s) | _ \<Rightarrow> Failure)) \<rparr>"

definition z_number :: ZodType where
  "z_number =
     \<lparr> typeName = ''ZodNumber'',
       safeParse = (\<lambda>x. Inr (case x of VNum q \<Rightarrow> Success (VNum q) | _ \<Rightarrow> Failure)) \<rparr>"

definition z_undefined :: ZodType where
  "z_undefined =
     \<lparr> typeName = ''ZodUndefined'',
       safeParse = (\<lambda>x. Inr (case x of VUndefined \<Rightarrow> Success VUndefined | _ \<Rightarrow> Failure)) \<rparr>"

text \<open>
  \<open>z.tuple(items)\<close>, with \<open>.rest(r)\<close> when \<open>rest = Some r\<close>: item \<open>i\<close> of the input is
  parsed by \<open>items[i]\<close>, or by the rest schema beyond the items; an input that is not an
  array or is shorter than \<open>items\<close> fails at once; items beyond \<open>items\<close> without a rest
  schema are skipped and the parse fails.
\<close>

fun parseTupleItems ::
  "ZodType list \<Rightarrow> ZodType option \<Rightarrow> jsval list \<Rightarrow> error + jsval list option" where
  "parseTupleItems ss rest [] = Inr (Some [])"
| "parseTupleItems (s # ss) rest (x # xs) =
     (case safeParse s x of
        Inl e \<Rightarrow> Inl e
      | Inr r \<Rightarrow>
          (case parseTupleItems ss rest xs of
             Inl e \<Rightarrow> Inl e
           | Inr rs \<Rightarrow>
               Inr (case r of
                      Failure \<Rightarrow> None
                    | Success v \<Rightarrow> map_option ((#) v) rs)))"
| "parseTupleItems [] (Some s) (x # xs) =
     (case safeParse s x of
        Inl e \<Rightarrow> Inl e
      | Inr r \<Rightarrow>
          (case parseTupleItems [] (Some s) xs of
             Inl e \<Rightarrow> Inl e
           | Inr rs \<Rightarrow>
               Inr (case r of
                      Failure \<Rightarrow> None
                    | Success v \<Rightarrow> map_option ((#) v) rs)))"
| "parseTupleItems [] None (x # xs) = Inr None"

definition parseSequence ::
  "ZodType list \<Rightarrow> ZodType option \<Rightarrow> jsval \<Rightarrow> error + SafeParseReturnType" where
  "parseSequence items rest x =
     (case x of
        VArr xs \<Rightarrow>
          (if length xs < length items then Inr Failure
           else (case parseTupleItems items rest xs of
                   Inl e \<Rightarrow> Inl e
                 | Inr None \<Rightarrow> Inr Failure
                 | Inr (Some vs) \<Rightarrow> Inr (Success (VArr vs))))
      | _ \<Rightarrow> Inr Failure)"

definition z_tuple :: "ZodType list \<Rightarrow> ZodType option \<Rightarrow> ZodType" where
  "z_tuple items rest = \<lparr> typeName = ''ZodTuple'', safeParse = parseSequence items rest \<rparr>"

text \<open>\<open>z.array(element)\<close>: every item of an array input is parsed by \<open>element\<close>.\<close>

definition z_array :: "ZodType \<Rightarrow> ZodType" where
  "z_array element =
     \<lparr> typeName = ''ZodArray'', safeParse = parseSequence [] (Some element) \<rparr>"

section \<open>The dispatcher installed by \<open>Overload\<close>\<close>

text \<open>
  An overload entry is the array \<open>[schema, handler, minArgs]\<close>. Handlers are kept
  abstract (\<open>'h\<close>) until one is called.
\<close>

type_synonym 'h Overload = "ZodType \<times> 'h \<times> number option"

datatype RowType = NoParams | Tuple | Array | Custom

record 'h OverloadParsedInputRow =
  schema :: ZodType
  safeParsed :: "SafeParseReturnType option"
  handler :: 'h
  minArgs :: number
  type :: RowType

text \<open>The \<open>switch\<close> on \<open>schema._def.typeName\<close>, lines 47 to 62.\<close>

definition classify :: "ZodType \<Rightarrow> RowType" where
  "classify s =
     (if typeName s = ''ZodUndefined'' then NoParams
      else if typeName s = ''ZodTuple'' then Tuple
      else if typeName s = ''ZodArray'' then Array
      else Custom)"

text \<open>\<open>isNaN(minArgs) ? 0 : Number(minArgs)\<close>, line 70.\<close>

fun normMinArgs :: "number option \<Rightarrow> number" where
  "normMinArgs None = Finite 0"
| "normMinArgs (Some NaN) = Finite 0"
| "normMinArgs (Some n) = n"

text \<open>\<open>args.length === _minArgs\<close>, line 85.\<close>

fun lengthIs :: "jsval list \<Rightarrow> number \<Rightarrow> bool" where
  "lengthIs args (Finite q) = (of_nat (length args) = q)"
| "lengthIs args _ = False"

text \<open>
  \<open>x.length\<close>: reading a property of \<open>undefined\<close> or \<open>null\<close> throws a TypeError; a
  string and an array have a length; a boolean or a number has no such property and
  the read gives \<open>undefined\<close>.
\<close>

fun getLength :: "jsval \<Rightarrow> error + jsval" where
  "getLength VUndefined = Inl TypeError"
| "getLength VNull = Inl TypeError"
| "getLength (VStr s) = Inr (VNum (of_nat (length s)))"
| "getLength (VArr xs) = Inr (VNum (of_nat (length xs)))"
| "getLength (VBool b) = Inr VUndefined"
| "getLength (VNum q) = Inr VUndefined"

text \<open>\<open>data => data.length === 0\<close>, line 78.\<close>

definition dataLengthIsZero :: "jsval \<Rightarrow> error + bool" where
  "dataLengthIsZero d = (case getLength d of Inl e \<Rightarrow> Inl e | Inr n \<Rightarrow> Inr (n = VNum 0))"

text \<open>Phase 1, lines 45 to 88: one row per entry.\<close>

definition phase1 :: "jsval list \<Rightarrow> 'h Overload \<Rightarrow> 'h OverloadParsedInputRow" where
  "phase1 args entry =
     (case entry of (schema0, handler0, minArgs0) \<Rightarrow>
        let type0 = classify schema0;
            minArgs1 = normMinArgs minArgs0
        in \<lparr> schema =
               (if type0 = NoParams then z_custom dataLengthIsZero
                else zod_and schema0 (z_custom (\<lambda>_. Inr (lengthIs args minArgs1)))),
             safeParsed = None,
             handler = handler0,
             minArgs = minArgs1,
             type = type0 \<rparr>)"

text \<open>\<open>args?.[0]\<close>, line 100.\<close>

fun firstArg :: "jsval list \<Rightarrow> jsval" where
  "firstArg [] = VUndefined"
| "firstArg (x # xs) = x"

text \<open>The value each kind of row is parsed against, lines 91 to 102.\<close>

fun parseInput :: "RowType \<Rightarrow> jsval list \<Rightarrow> jsval" where
  "parseInput NoParams args = VUndefined"
| "parseInput Tuple args = VArr args"
| "parseInput Array args = VArr args"
| "parseInput Custom args = firstArg args"

text \<open>Phase 2, lines 90 to 104: run the row's schema; an exception leaves the \<open>map\<close>.\<close>

definition phase2 ::
  "jsval list \<Rightarrow> 'h OverloadParsedInputRow \<Rightarrow> error + 'h OverloadParsedInputRow" where
  "phase2 args element =
     (case safeParse (schema element) (parseInput (type element) args) of
        Inl e \<Rightarrow> Inl e
      | Inr r \<Rightarrow> Inr (element\<lparr>safeParsed := Some r\<rparr>))"

text \<open>\<open>Array.prototype.map\<close> with a callback that may throw.\<close>

fun mapThrowing :: "('a \<Rightarrow> error + 'b) \<Rightarrow> 'a list \<Rightarrow> error + 'b list" where
  "mapThrowing f [] = Inr []"
| "mapThrowing f (x # xs) =
     (case f x of
        Inl e \<Rightarrow> Inl e
      | Inr y \<Rightarrow> (case mapThrowing f xs of Inl e \<Rightarrow> Inl e | Inr ys \<Rightarrow> Inr (y # ys)))"

definition validated :: "'h Overload list \<Rightarrow> jsval list \<Rightarrow> error + 'h OverloadParsedInputRow list" where
  "validated overloads args = mapThrowing (phase2 args) (map (phase1 args) overloads)"

text \<open>
  \<open>element?.safeParsed.success\<close>, line 106, and \<open>safeParsed.data\<close>, lines 113 to 117.
  Every row that reaches them has been through phase 2, so \<open>safeParsed\<close> is set.
\<close>

fun success :: "'h OverloadParsedInputRow \<Rightarrow> bool" where
  "success element = (case safeParsed element of Some (Success d) \<Rightarrow> True | _ \<Rightarrow> False)"

fun data :: "'h OverloadParsedInputRow \<Rightarrow> jsval" where
  "data element = (case safeParsed element of Some (Success d) \<Rightarrow> d | _ \<Rightarrow> VUndefined)"

text \<open>
  The one call the replacement method ends with: a handler, or the original method,
  with the value bound to \<open>this\<close> and the argument list.
\<close>

datatype ('h, 'c) Invocation =
    HandlerCall 'h 'c "jsval list"
  | OriginalCall 'c "jsval list"

text \<open>
  \<open>f(...x)\<close> iterates \<open>x\<close>: an array gives its items, a string its characters, and a
  value that is not iterable throws.
\<close>

fun spread :: "jsval \<Rightarrow> error + jsval list" where
  "spread (VArr xs) = Inr xs"
| "spread (VStr s) = Inr (map (\<lambda>c. VStr [c]) s)"
| "spread _ = Inl TypeError"

text \<open>
  \<open>f.apply(t, x)\<close>: an array gives its items, \<open>undefined\<close> and \<open>null\<close> give no argument,
  and any other primitive throws.
\<close>

fun applyArgs :: "jsval \<Rightarrow> error + jsval list" where
  "applyArgs (VArr xs) = Inr xs"
| "applyArgs VUndefined = Inr []"
| "applyArgs VNull = Inr []"
| "applyArgs _ = Inl TypeError"

text \<open>Lines 107 to 119: the handler is bound to the decorator's \<open>target\<close>.\<close>

definition invoke :: "'c \<Rightarrow> 'h OverloadParsedInputRow \<Rightarrow> error + ('h, 'c) Invocation" where
  "invoke target parsed =
     (case type parsed of
        NoParams \<Rightarrow> Inr (HandlerCall (handler parsed) target [])
      | Tuple \<Rightarrow>
          (case spread (data parsed) of
             Inl e \<Rightarrow> Inl e
           | Inr xs \<Rightarrow> Inr (HandlerCall (handler parsed) target xs))
      | Array \<Rightarrow>
          (case applyArgs (data parsed) of
             Inl e \<Rightarrow> Inl e
           | Inr xs \<Rightarrow> Inr (HandlerCall (handler parsed) target xs))
      | Custom \<Rightarrow> Inr (HandlerCall (handler parsed) target [data parsed]))"

text \<open>
  \<open>descriptor.value\<close>, lines 42 to 122, up to its final call: \<open>target\<close> is the
  decorator's first parameter, \<open>this\<close> the object the replacement method is called on.
\<close>

definition descriptor_value ::
  "'h Overload list \<Rightarrow> 'c \<Rightarrow> 'c \<Rightarrow> jsval list \<Rightarrow> error + ('h, 'c) Invocation" where
  "descriptor_value overloads target this args =
     (case validated overloads args of
        Inl e \<Rightarrow> Inl e
      | Inr rows \<Rightarrow>
          (case filter success rows of
             [] \<Rightarrow> Inr (OriginalCall this args)
           | parsed # later \<Rightarrow> invoke target parsed))"

text \<open>A JavaScript function: the value of \<open>this\<close> and the arguments give a result or throw.\<close>

type_synonym 'c Function = "'c \<Rightarrow> jsval list \<Rightarrow> error + jsval"

fun perform :: "'c Function \<Rightarrow> ('c Function, 'c) Invocation \<Rightarrow> error + jsval" where
  "perform originalMethod (HandlerCall h c xs) = h c xs"
| "perform originalMethod (OriginalCall c xs) = originalMethod c xs"

definition decorated ::
  "'c Function Overload list \<Rightarrow> 'c \<Rightarrow> 'c Function \<Rightarrow> 'c \<Rightarrow> jsval list \<Rightarrow> error + jsval" where
  "decorated overloads target originalMethod this args =
     (case descriptor_value overloads target this args of
        Inl e \<Rightarrow> Inl e
      | Inr call \<Rightarrow> perform originalMethod call)"

section \<open>The error type\<close>

text \<open>\<open>Array.prototype.join\<close> on an array of strings.\<close>

fun join :: "string list \<Rightarrow> string \<Rightarrow> string" where
  "join [] sep = []"
| "join [x] sep = x"
| "join (x # y # ys) sep = x @ sep @ join (y # ys) sep"

text \<open>
  \<open>String.prototype.trim\<close> removes white space and line terminators from both ends.
  Strings are modelled with 8-bit characters; the white space among them is tab, line
  feed, vertical tab, form feed, carriage return, space and no-break space.
\<close>

definition isWhiteSpace :: "char \<Rightarrow> bool" where
  "isWhiteSpace c =
     (c \<in> set [CHR 0x09, CHR 0x0A, CHR 0x0B, CHR 0x0C, CHR 0x0D, CHR 0x20, CHR 0xA0])"

definition trim :: "string \<Rightarrow> string" where
  "trim s = rev (dropWhile isWhiteSpace (rev (dropWhile isWhiteSpace s)))"

record 'h NoMatchedHandlerError =
  message :: string
  overloads :: "'h Overload list"

text \<open>The constructor, lines 154 to 157.\<close>

definition new_NoMatchedHandlerError ::
  "'h Overload list \<Rightarrow> string list \<Rightarrow> 'h NoMatchedHandlerError" where
  "new_NoMatchedHandlerError entries spaceJoinedStrings =
     \<lparr> message = trim (join spaceJoinedStrings '' ''), overloads = entries \<rparr>"

section \<open>Schemas and handlers of the examples\<close>

text \<open>
  Modelled from the spec: \<open>Overload.NO_PARAMS\<close>, the "one reserved constant schema value
  [that] denotes expect zero arguments"; its assignment is not in the source file. The
  dispatcher recognises it by the type name \<open>ZodUndefined\<close> (line 48), the type name of
  \<open>z.undefined()\<close>.
\<close>

definition NO_PARAMS :: ZodType where
  "NO_PARAMS = z_undefined"

text \<open>\<open>z.tuple([z.string(), z.number()])\<close> and \<open>z.tuple([z.string()]).rest(z.number())\<close>.\<close>

definition stringNumber :: ZodType where
  "stringNumber = z_tuple [z_string, z_number] None"

definition stringThenNumbers :: ZodType where
  "stringThenNumbers = z_tuple [z_string] (Some z_number)"

text \<open>The handlers \<open>() => "none"\<close> and \<open>s => s.length\<close>.\<close>

definition returnNone :: "'c Function" where
  "returnNone c xs = Inr (VStr ''none'')"

definition stringLength :: "'c Function" where
  "stringLength c xs = getLength (firstArg xs)"

text \<open>A row of phase 1 with the outcome that phase 2 stores in it.\<close>

definition rowWith ::
  "jsval list \<Rightarrow> 'h Overload \<Rightarrow> SafeParseReturnType \<Rightarrow> 'h OverloadParsedInputRow" where
  "rowWith args entry r = (phase1 args entry)\<lparr>safeParsed := Some r\<rparr>"

section \<open>Facts about the Zod interface\<close>

lemma mergeValues_eq:
  "mergeValues a b = (if a = b then Some a else None)"
  "mergeItems xs ys = (if xs = ys then Some xs else None)"
  by (induction a b and xs ys rule: mergeValues_mergeItems.induct) (auto split: option.splits)

lemma lengthIs_iff: "lengthIs args n \<longleftrightarrow> n = Finite (of_nat (length args))"
  by (cases n) auto

text \<open>
  A schema intersected with a constant predicate succeeds exactly when the schema
  returns its input unchanged and the predicate is true.
\<close>

lemma safeParse_guarded:
  "safeParse (zod_and s (z_custom (\<lambda>_. Inr g))) x =
     (case safeParse s x of
        Inl e \<Rightarrow> Inl e
      | Inr Failure \<Rightarrow> Inr Failure
      | Inr (Success u) \<Rightarrow> Inr (if g \<and> u = x then Success x else Failure))"
  by (simp add: zod_and_def z_custom_def mergeValues_eq
      split: sum.splits SafeParseReturnType.splits)

section \<open>Facts about the two phases\<close>

lemma phase2_fields:
  assumes "phase2 args (phase1 args (s, h, m)) = Inr r"
  shows "handler r = h" and "type r = classify s" and "minArgs r = normMinArgs m"
    and "schema r = schema (phase1 args (s, h, m))"
  using assms by (auto simp: phase2_def phase1_def Let_def split: sum.splits)

lemma phase2_NoParams:
  "classify s = NoParams \<Longrightarrow> phase2 args (phase1 args (s, h, m)) = Inl TypeError"
  by (simp add: phase2_def phase1_def z_custom_def dataLengthIsZero_def)

lemma phase2_success_iff:
  assumes "classify s \<noteq> NoParams" and "phase2 args (phase1 args (s, h, m)) = Inr r"
  shows "success r \<longleftrightarrow>
           safeParse s (parseInput (classify s) args) = Inr (Success (parseInput (classify s) args))
           \<and> lengthIs args (normMinArgs m)"
  using assms
  by (auto simp: phase2_def phase1_def Let_def safeParse_guarded
      split: sum.splits SafeParseReturnType.splits if_splits)

lemma phase2_data:
  assumes "classify s \<noteq> NoParams" and "phase2 args (phase1 args (s, h, m)) = Inr r"
    and "success r"
  shows "data r = parseInput (classify s) args"
  using assms
  by (auto simp: phase2_def phase1_def Let_def safeParse_guarded
      split: sum.splits SafeParseReturnType.splits if_splits)

lemma mapThrowing_Inr:
  "mapThrowing f xs = Inr ys \<Longrightarrow>
     length ys = length xs \<and> (\<forall>i<length xs. f (xs ! i) = Inr (ys ! i))"
proof (induction xs arbitrary: ys)
  case Nil
  then show ?case by simp
next
  case (Cons x xs)
  from Cons.prems obtain y zs where y: "f x = Inr y" and zs: "mapThrowing f xs = Inr zs"
    and ys: "ys = y # zs"
    by (auto split: sum.splits)
  from Cons.IH [OF zs] have ih: "length zs = length xs" "\<forall>i<length xs. f (xs ! i) = Inr (zs ! i)"
    by simp_all
  show ?case
  proof (intro conjI allI impI)
    show "length ys = length (x # xs)" using ys ih by simp
  next
    fix i assume "i < length (x # xs)"
    then show "f ((x # xs) ! i) = Inr (ys ! i)"
      using y ys ih by (cases i) simp_all
  qed
qed

lemma mapThrowing_throws:
  "x \<in> set xs \<Longrightarrow> f x = Inl e0 \<Longrightarrow> \<exists>e. mapThrowing f xs = Inl e"
  by (induction xs) (auto split: sum.splits)

lemma validated_nth:
  assumes "validated entries args = Inr rows" and "i < length entries"
  shows "phase2 args (phase1 args (entries ! i)) = Inr (rows ! i)"
  using mapThrowing_Inr [OF assms(1) [unfolded validated_def]] assms(2) by simp

lemma validated_length:
  "validated entries args = Inr rows \<Longrightarrow> length rows = length entries"
  using mapThrowing_Inr [of "phase2 args" "map (phase1 args) entries" rows]
  by (simp add: validated_def)

text \<open>A list that validates has no row of type \<open>NoParams\<close>.\<close>

lemma validated_not_NoParams:
  assumes "validated entries args = Inr rows" and "i < length entries"
  shows "classify (fst (entries ! i)) \<noteq> NoParams"
proof
  assume c: "classify (fst (entries ! i)) = NoParams"
  obtain s h m where e: "entries ! i = (s, h, m)" by (cases "entries ! i")
  from validated_nth [OF assms] e have "phase2 args (phase1 args (s, h, m)) = Inr (rows ! i)"
    by simp
  moreover from c e have "phase2 args (phase1 args (s, h, m)) = Inl TypeError"
    by (simp add: phase2_NoParams)
  ultimately show False by simp
qed

lemma filter_first:
  assumes "i < length xs" and "P (xs ! i)" and "\<forall>j<i. \<not> P (xs ! j)"
  shows "filter P xs = xs ! i # filter P (drop (Suc i) xs)"
proof -
  have "\<forall>x\<in>set (take i xs). \<not> P x"
    using assms(1,3) by (auto simp: in_set_conv_nth)
  then have "filter P (take i xs) = []" by simp
  moreover have "xs = take i xs @ xs ! i # drop (Suc i) xs"
    using assms(1) by (simp add: id_take_nth_drop)
  ultimately show ?thesis
    using assms(2) by (metis append_Nil filter.simps(2) filter_append)
qed

lemma invoke_success:
  assumes "type r \<noteq> NoParams" and "data r = parseInput (type r) args"
  shows "invoke target r =
           Inr (HandlerCall (handler r) target
                  (case type r of Custom \<Rightarrow> [firstArg args] | _ \<Rightarrow> args))"
  using assms by (cases "type r") (simp_all add: invoke_def)

text \<open>
  What the selection of lines 105 to 121 does once the validation phase has completed:
  the first successful row gives the one handler call, and no successful row gives the
  call of the original method.
\<close>

lemma completed_validation_selects_first_success:
  assumes "validated entries args = Inr rows"
    and "i < length entries"
    and "success (rows ! i)"
    and "\<forall>j<i. \<not> success (rows ! j)"
  shows "descriptor_value entries target this args =
           Inr (HandlerCall (fst (snd (entries ! i))) target
                  (case classify (fst (entries ! i)) of Custom \<Rightarrow> [firstArg args] | _ \<Rightarrow> args))"
proof -
  obtain s h m where e: "entries ! i = (s, h, m)" by (cases "entries ! i")
  have p: "phase2 args (phase1 args (s, h, m)) = Inr (rows ! i)"
    using validated_nth [OF assms(1,2)] e by simp
  have c: "classify s \<noteq> NoParams"
    using validated_not_NoParams [OF assms(1,2)] e by simp
  have t: "type (rows ! i) = classify s" and hd: "handler (rows ! i) = h"
    using phase2_fields [OF p] by simp_all
  have d: "data (rows ! i) = parseInput (type (rows ! i)) args"
    using phase2_data [OF c p assms(3)] t by simp
  have len: "i < length rows"
    using validated_length [OF assms(1)] assms(2) by simp
  have "filter success rows = rows ! i # filter success (drop (Suc i) rows)"
    using filter_first [OF len assms(3,4)] .
  then have "descriptor_value entries target this args = invoke target (rows ! i)"
    using assms(1) by (simp add: descriptor_value_def)
  also have "\<dots> = Inr (HandlerCall (handler (rows ! i)) target
                  (case type (rows ! i) of Custom \<Rightarrow> [firstArg args] | _ \<Rightarrow> args))"
    using invoke_success [OF _ d] c t by simp
  finally show ?thesis using t hd e by simp
qed

lemma completed_validation_without_success_falls_back:
  assumes "validated entries args = Inr rows"
    and "\<forall>r\<in>set rows. \<not> success r"
  shows "descriptor_value entries target this args = Inr (OriginalCall this args)
         \<and> decorated entries target originalMethod this args = originalMethod this args"
proof -
  from assms(2) have "filter success rows = []"
    by (simp add: filter_empty_conv del: success.simps)
  with assms(1) have "descriptor_value entries target this args = Inr (OriginalCall this args)"
    by (simp add: descriptor_value_def)
  then show ?thesis by (simp add: decorated_def)
qed

section \<open>The argument-count guard\<close>




text \<open>
  Claim C2: when the validation of a call completes, the row of every entry that is
  not classified no-arguments, tuple and array entries included, carries the entry's
  schema intersected with the predicate that the number of call arguments equals the
  normalized minimum-argument-count, and the row can succeed only when the call has
  exactly that many arguments.
\<close>

theorem every_guarded_entry_needs_minArgs_arguments:
  assumes "validated entries args = Inr rows"
    and "i < length entries"
    and "entries ! i = (s, h, m)"
    and "classify s \<noteq> NoParams"
  shows "schema (rows ! i) = zod_and s (z_custom (\<lambda>_. Inr (lengthIs args (normMinArgs m))))
         \<and> minArgs (rows ! i) = normMinArgs m
         \<and> (success (rows ! i) \<longrightarrow> normMinArgs m = Finite (of_nat (length args)))"
proof -
  have p: "phase2 args (phase1 args (s, h, m)) = Inr (rows ! i)"
    using validated_nth [OF assms(1,2)] assms(3) by simp
  have "schema (rows ! i) = schema (phase1 args (s, h, m))"
    using phase2_fields(4) [OF p] .
  then have "schema (rows ! i) = zod_and s (z_custom (\<lambda>_. Inr (lengthIs args (normMinArgs m))))"
    using assms(4) by (simp add: phase1_def Let_def)
  moreover have "minArgs (rows ! i) = normMinArgs m"
    using phase2_fields(3) [OF p] .
  moreover have "success (rows ! i) \<longrightarrow> normMinArgs m = Finite (of_nat (length args))"
    using phase2_success_iff [OF assms(4) p] by (simp add: lengthIs_iff)
  ultimately show ?thesis by simp
qed

text \<open>
  The theorem at a variadic tuple entry declared with one argument and the call
  \<open>("r", 1, 2)\<close>: the row fails.
\<close>

theorem every_guarded_entry_needs_minArgs_arguments_witness:
  "validated [(stringThenNumbers, ''H'', Some (Finite 1))] [VStr ''r'', VNum 1, VNum 2]
     = Inr [rowWith [VStr ''r'', VNum 1, VNum 2] (stringThenNumbers, ''H'', Some (Finite 1)) Failure]
   \<and> (0::nat) < length [(stringThenNumbers, ''H'', Some (Finite 1))]
   \<and> classify stringThenNumbers \<noteq> NoParams
   \<and> minArgs ([rowWith [VStr ''r'', VNum 1, VNum 2] (stringThenNumbers, ''H'', Some (Finite 1)) Failure] ! 0)
       = Finite 1
   \<and> \<not> success ([rowWith [VStr ''r'', VNum 1, VNum 2] (stringThenNumbers, ''H'', Some (Finite 1)) Failure] ! 0)"
proof -
  let ?args = "[VStr ''r'', VNum 1, VNum 2]"
  let ?e = "(stringThenNumbers, ''H'', Some (Finite 1))"
  let ?rows = "[rowWith ?args ?e Failure]"
  have h1: "validated [?e] ?args = Inr ?rows"
    by (simp add: validated_def phase2_def phase1_def classify_def rowWith_def Let_def
        zod_and_def z_custom_def stringThenNumbers_def z_tuple_def parseSequence_def
        z_string_def z_number_def)
  have h2: "(0::nat) < length [?e]" by simp
  have h3: "[?e] ! 0 = (stringThenNumbers, ''H'', Some (Finite 1))" by simp
  have h4: "classify stringThenNumbers \<noteq> NoParams"
    by (simp add: classify_def stringThenNumbers_def z_tuple_def)
  show ?thesis
    using h1 h2 h4 every_guarded_entry_needs_minArgs_arguments [OF h1 h2 h3 h4]
    by (simp add: rowWith_def)
qed

section \<open>Selection\<close>

text \<open>
  Claim C3 on the code: with the entries (any, H1) and (string, H2), both declared with
  one argument, followed by a no-arguments entry, the call \<open>("x")\<close> validates the first
  two entries with success and then throws the TypeError of lines 78 and 93 in the
  third: no handler is called, although two validations succeeded. Without the third
  entry the same call calls H1.
\<close>

theorem first_match_lost_to_no_params_entry:
  "phase2 [VStr ''x''] (phase1 [VStr ''x''] (z_any, ''H1'', Some (Finite 1)))
     = Inr (rowWith [VStr ''x''] (z_any, ''H1'', Some (Finite 1)) (Success (VStr ''x'')))
   \<and> phase2 [VStr ''x''] (phase1 [VStr ''x''] (z_string, ''H2'', Some (Finite 1)))
     = Inr (rowWith [VStr ''x''] (z_string, ''H2'', Some (Finite 1)) (Success (VStr ''x'')))
   \<and> descriptor_value
         [(z_any, ''H1'', Some (Finite 1)), (z_string, ''H2'', Some (Finite 1)),
          (NO_PARAMS, ''H0'', None)] ''target'' ''this'' [VStr ''x'']
     = Inl TypeError
   \<and> decorated
         [(z_any, h1, Some (Finite 1)), (z_string, h2, Some (Finite 1)), (NO_PARAMS, h0, None)]
         target originalMethod this [VStr ''x'']
     = Inl TypeError
   \<and> descriptor_value
         [(z_any, ''H1'', Some (Finite 1)), (z_string, ''H2'', Some (Finite 1))]
         ''target'' ''this'' [VStr ''x'']
     = Inr (HandlerCall ''H1'' ''target'' [VStr ''x''])"
  by (simp add: decorated_def descriptor_value_def validated_def phase2_def phase1_def
      classify_def invoke_def rowWith_def zod_and_def z_custom_def dataLengthIsZero_def
      NO_PARAMS_def z_undefined_def z_any_def z_string_def Let_def)

text \<open>
  Claim C4 on the code: with the entries (any single value, H1) and (string, H2)
  written as the pairs of the docstring, the call \<open>("x")\<close> calls neither H1 nor H2:
  the absent count becomes zero at line 70, the guard of line 85 rejects the
  one-argument call for both entries, and the original method runs.
\<close>

theorem pair_entries_fall_back:
  "descriptor_value [(z_any, ''H1'', None), (z_string, ''H2'', None)] ''target'' ''this''
       [VStr ''x'']
     = Inr (OriginalCall ''this'' [VStr ''x''])
   \<and> decorated [(z_any, h1, None), (z_string, h2, None)] target originalMethod this [VStr ''x'']
     = originalMethod this [VStr ''x'']"
  by (simp add: decorated_def descriptor_value_def validated_def phase2_def phase1_def
      classify_def zod_and_def z_custom_def z_any_def z_string_def Let_def)

text \<open>
  Claim C5 on the code: written as the pairs of the docstring, the tuple entry
  [string, number] does not match \<open>("a", 1)\<close> and the variadic entry matches neither
  \<open>("r", 1, 2, 3)\<close> nor \<open>("r")\<close>; and whatever count the variadic entry declares, at
  least one of these two calls falls back to the original method.
\<close>

theorem tuple_entries_miss_documented_calls:
  "descriptor_value [(stringNumber, H, None)] target this [VStr ''a'', VNum 1]
     = Inr (OriginalCall this [VStr ''a'', VNum 1])
   \<and> descriptor_value [(stringThenNumbers, H, None)] target this
         [VStr ''r'', VNum 1, VNum 2, VNum 3]
     = Inr (OriginalCall this [VStr ''r'', VNum 1, VNum 2, VNum 3])
   \<and> descriptor_value [(stringThenNumbers, H, None)] target this [VStr ''r'']
     = Inr (OriginalCall this [VStr ''r''])
   \<and> (descriptor_value [(stringThenNumbers, H, m)] target this
          [VStr ''r'', VNum 1, VNum 2, VNum 3]
        = Inr (OriginalCall this [VStr ''r'', VNum 1, VNum 2, VNum 3])
      \<or> descriptor_value [(stringThenNumbers, H, m)] target this [VStr ''r'']
        = Inr (OriginalCall this [VStr ''r'']))"
proof -
  have a: "descriptor_value [(stringNumber, H, None)] target this [VStr ''a'', VNum 1]
     = Inr (OriginalCall this [VStr ''a'', VNum 1])"
    by (simp add: descriptor_value_def validated_def phase2_def phase1_def classify_def
      zod_and_def z_custom_def stringNumber_def z_tuple_def parseSequence_def
      z_string_def z_number_def Let_def)
  have four: "descriptor_value [(stringThenNumbers, H, k)] target this
          [VStr ''r'', VNum 1, VNum 2, VNum 3]
        = (if normMinArgs k = Finite 4
           then Inr (HandlerCall H target [VStr ''r'', VNum 1, VNum 2, VNum 3])
           else Inr (OriginalCall this [VStr ''r'', VNum 1, VNum 2, VNum 3]))" for k
    by (simp add: descriptor_value_def validated_def phase2_def phase1_def classify_def
      invoke_def zod_and_def z_custom_def stringThenNumbers_def z_tuple_def parseSequence_def
      z_string_def z_number_def Let_def lengthIs_iff)
  have one: "descriptor_value [(stringThenNumbers, H, k)] target this [VStr ''r'']
        = (if normMinArgs k = Finite 1
           then Inr (HandlerCall H target [VStr ''r''])
           else Inr (OriginalCall this [VStr ''r'']))" for k
    by (simp add: descriptor_value_def validated_def phase2_def phase1_def classify_def
      invoke_def zod_and_def z_custom_def stringThenNumbers_def z_tuple_def parseSequence_def
      z_string_def z_number_def Let_def lengthIs_iff)
  have "normMinArgs m \<noteq> Finite 4 \<or> normMinArgs m \<noteq> Finite 1"
    by (cases "normMinArgs m = Finite 4") simp_all
  then show ?thesis
    using a four [of m] one [of m] four [of None] one [of None] by auto
qed

section \<open>The no-arguments entry\<close>

text \<open>
  Claim C6 on the code: with the entries (NO_PARAMS, \<open>() => "none"\<close>) and
  (string, \<open>s => s.length\<close>), whatever counts they declare, the call with no argument
  does not return \<open>"none"\<close>: the predicate of line 78 reads the length of the value
  \<open>undefined\<close> that line 93 parses, and the call ends with a TypeError.
\<close>

theorem no_params_example_throws:
  "decorated [(NO_PARAMS, returnNone, m1), (z_string, stringLength, m2)]
       target originalMethod this []
     = Inl TypeError"
  by (simp add: decorated_def descriptor_value_def validated_def phase2_def phase1_def
      classify_def z_custom_def dataLengthIsZero_def NO_PARAMS_def z_undefined_def Let_def)

text \<open>
  Claim C7 on the code: validating an entry classified no-arguments throws a TypeError
  on every argument list, so for every entry list that holds such an entry the
  validation phase throws, and with it the call of the replacement method, instead of
  recording a failure.
\<close>

theorem no_params_validation_throws:
  assumes "(s, h, m) \<in> set entries" and "classify s = NoParams"
  shows "phase2 args (phase1 args (s, h, m)) = Inl TypeError
         \<and> (\<exists>e. validated entries args = Inl e
                  \<and> descriptor_value entries target this args = Inl e)"
proof -
  have p: "phase2 args (phase1 args (s, h, m)) = Inl TypeError"
    using assms(2) by (rule phase2_NoParams)
  have i: "phase1 args (s, h, m) \<in> set (map (phase1 args) entries)"
    using assms(1) by (simp add: image_iff) blast
  have "\<exists>e. mapThrowing (phase2 args) (map (phase1 args) entries) = Inl e"
    using i p by (rule mapThrowing_throws [where f = "phase2 args"])
  then obtain e where "validated entries args = Inl e"
    by (auto simp: validated_def)
  then show ?thesis using p by (simp add: descriptor_value_def)
qed

text \<open>
  The theorem at a string entry followed by \<open>NO_PARAMS\<close> and the call \<open>("x")\<close>, which
  the string entry alone would match.
\<close>

theorem no_params_validation_throws_witness:
  "(NO_PARAMS, ''H0'', None) \<in> set [(z_string, ''H'', Some (Finite 1)), (NO_PARAMS, ''H0'', None)]
   \<and> classify NO_PARAMS = NoParams
   \<and> validated [(z_string, ''H'', Some (Finite 1)), (NO_PARAMS, ''H0'', None)] [VStr ''x'']
       = Inl TypeError
   \<and> descriptor_value [(z_string, ''H'', Some (Finite 1)), (NO_PARAMS, ''H0'', None)]
         ''target'' ''this'' [VStr ''x'']
       = Inl TypeError"
proof -
  let ?entries = "[(z_string, ''H'', Some (Finite 1)), (NO_PARAMS, ''H0'', None)]"
  have h1: "(NO_PARAMS, ''H0'', None) \<in> set ?entries" by simp
  have h2: "classify NO_PARAMS = NoParams"
    by (simp add: classify_def NO_PARAMS_def z_undefined_def)
  have v: "validated ?entries [VStr ''x''] = Inl TypeError"
    by (simp add: validated_def phase2_def phase1_def classify_def Let_def
        zod_and_def z_custom_def dataLengthIsZero_def NO_PARAMS_def z_undefined_def z_string_def)
  show ?thesis
    using h1 h2 v
      no_params_validation_throws [OF h1 h2, where args = "[VStr ''x'']"
        and target = "''target''" and this = "''this''"]
    by simp
qed

section \<open>Fallback and call context\<close>

text \<open>
  Claim C8 on the code: with a no-arguments entry as the only entry, the call \<open>(5)\<close>
  has no successful validation, yet the original method is not called: the validation
  of the entry throws the TypeError of lines 78 and 93, which is the outcome of the
  call whatever the original method does. With a string entry in its place the same
  call is the call of the original method.
\<close>

theorem fallback_lost_to_no_params_entry:
  "validated [(NO_PARAMS, returnNone :: string Function, None)] [VNum 5] = Inl TypeError
   \<and> decorated [(NO_PARAMS, returnNone, m)] target originalMethod this [VNum 5]
     = Inl TypeError
   \<and> decorated [(z_string, stringLength, Some (Finite 1))] target originalMethod this [VNum 5]
     = originalMethod this [VNum 5]"
  by (simp add: decorated_def descriptor_value_def validated_def phase2_def phase1_def
      classify_def zod_and_def z_custom_def dataLengthIsZero_def NO_PARAMS_def z_undefined_def
      z_string_def Let_def)

text \<open>
  Claim C9 on the code: a method decorated on \<open>MyClass.prototype\<close> and called on an
  instance calls the matched handler with \<open>this\<close> bound to \<open>MyClass.prototype\<close>, the
  decorator's \<open>target\<close>, not to the instance that received the call; the fallback of
  the same method is called on the instance.
\<close>

theorem handler_bound_to_target:
  "descriptor_value [(z_string, ''H'', Some (Finite 1))] ''MyClass.prototype'' ''instance''
       [VStr ''x'']
     = Inr (HandlerCall ''H'' ''MyClass.prototype'' [VStr ''x''])
   \<and> descriptor_value [(z_string, ''H'', Some (Finite 1))] ''MyClass.prototype'' ''instance''
       [VNum 1]
     = Inr (OriginalCall ''instance'' [VNum 1])"
  by (simp add: descriptor_value_def validated_def phase2_def phase1_def classify_def
      invoke_def zod_and_def z_custom_def z_string_def Let_def)

section \<open>The error type's constructor\<close>

text \<open>
  Claim C10: constructing the error with the entry list \<open>E\<close> and the fragments
  \<open>"a"\<close>, \<open>"b"\<close>, \<open>"c"\<close> gives the message \<open>"a b c"\<close> and the \<open>overloads\<close> field \<open>E\<close>.
\<close>

theorem error_message_and_overloads:
  "new_NoMatchedHandlerError E [''a'', ''b'', ''c''] = \<lparr> message = ''a b c'', overloads = E \<rparr>"
  by (simp add: new_NoMatchedHandlerError_def trim_def isWhiteSpace_def)

end
